theory Spec2Isabelle
  imports Main
begin

section \<open>The dApp connection dialog (src/components/DAppConnection.tsx)\<close>

text \<open>
  The component is a React function component with one piece of local state
  (\<open>isProcessing\<close>), three callbacks received from its parent, and the toast
  capability of \<open>useToast\<close>. The model below keeps the helper functions of the
  component under their own names, turns the two event handlers into functions from
  the props and the local state to the new state together with the ordered list of
  effects they perform, and turns the returned JSX into a tree.
\<close>

subsection \<open>Strings\<close>

text \<open>
  A JavaScript string is a sequence of code units; it is modelled as a \<open>string\<close>,
  one \<open>char\<close> per code unit. \<open>String.prototype.slice(start, end)\<close> is the
  built-in of the language: a negative index counts from the end, both indices are
  clamped to \<open>[0, length]\<close>, and an omitted \<open>end\<close> is the length.
\<close>

definition slice :: "'a list \<Rightarrow> int \<Rightarrow> int option \<Rightarrow> 'a list" where
  "slice s start end =
     (let len = int (length s);
          from_ix = (if start < 0 then max (len + start) 0 else min start len);
          int_end = (case end of None \<Rightarrow> len | Some e \<Rightarrow> e);
          to_ix = (if int_end < 0 then max (len + int_end) 0 else min int_end len)
      in if to_ix \<le> from_ix then []
         else take (nat (to_ix - from_ix)) (drop (nat from_ix) s))"

text \<open>
  \<^verbatim>\<open>const truncateAddress = (address: string) => {
    return `${address.slice(0, 8)}...${address.slice(-6)}`;
  };\<close>
\<close>

definition truncateAddress :: "string \<Rightarrow> string" where
  "truncateAddress address =
     slice address 0 (Some 8) @ ''...'' @ slice address (- 6) None"

subsection \<open>Permissions\<close>

text \<open>
  The icons imported from the icon library. An icon element \<open><Eye className="..." />\<close>
  is the icon with its class name.
\<close>

datatype icon = ExternalLink | Shield | Eye | Send | X | Check

datatype icon_element = Icon icon string

text \<open>
  \<^verbatim>\<open>const getPermissionIcon = (permission: string) => {
    switch (permission) {
      case 'view_address': return <Eye className="h-4 w-4" />;
      case 'view_balance': return <Eye className="h-4 w-4" />;
      case 'call_methods': return <Send className="h-4 w-4" />;
      default:             return <Shield className="h-4 w-4" />;
    }
  };\<close>
  The \<open>switch\<close> compares with strict equality, which on strings is equality of the
  code unit sequences.
\<close>

definition getPermissionIcon :: "string \<Rightarrow> icon_element" where
  "getPermissionIcon permission =
     (if permission = ''view_address'' then Icon Eye ''h-4 w-4''
      else if permission = ''view_balance'' then Icon Eye ''h-4 w-4''
      else if permission = ''call_methods'' then Icon Send ''h-4 w-4''
      else Icon Shield ''h-4 w-4'')"

text \<open>
  \<^verbatim>\<open>const getPermissionDescription = (permission: string) => {
    switch (permission) {
      case 'view_address': return 'View the address of your permitted account';
      case 'view_balance': return 'View the balance of your permitted account';
      case 'call_methods':
        return 'Call methods on the smart contract on behalf of your permitted account';
      default:             return permission;
    }
  };\<close>
\<close>

definition getPermissionDescription :: "string \<Rightarrow> string" where
  "getPermissionDescription permission =
     (if permission = ''view_address'' then ''View the address of your permitted account''
      else if permission = ''view_balance'' then ''View the balance of your permitted account''
      else if permission = ''call_methods'' then
        ''Call methods on the smart contract on behalf of your permitted account''
      else permission)"

subsection \<open>Props, local state and effects\<close>

text \<open>
  Modelled from the spec: the types \<open>Wallet\<close> and \<open>DAppConnectionRequest\<close>, which the
  component imports from \<open>../types/wallet\<close>. A wallet has at least an address, a string,
  and that is the one field the component reads; the other fields of a wallet are the
  extension \<open>'m\<close> of the record. A request has a display name and an icon reference,
  both optional (the component tests each for being absent or empty), an origin, and an
  ordered sequence of permission identifiers.
\<close>

record wallet =
  address :: string

record dAppConnectionRequest =
  origin :: string
  appName :: "string option"
  appIcon :: "string option"
  permissions :: "string list"

text \<open>
  A call of a callback either returns or throws. The callbacks are typed \<open>=> void\<close>, so
  whatever they return is discarded by the component; a function that returns a promise
  (an \<open>async\<close> function) is assignable to that type, and the promise it returns may be
  pending, fulfilled or rejected.
\<close>

datatype promise_state = Pending | Fulfilled | Rejected

datatype js_value = Undefined | Promise promise_state

datatype completion = Returns js_value | Throws string

record 'm dAppConnectionProps =
  connectionRequest :: dAppConnectionRequest
  wallets :: "'m wallet_scheme list"
  selectedWallet :: "'m wallet_scheme option"
  onWalletSelect :: "'m wallet_scheme \<Rightarrow> completion"
  onApprove :: "'m wallet_scheme \<Rightarrow> completion"
  onReject :: completion

text \<open>\<^verbatim>\<open>const [isProcessing, setIsProcessing] = useState(false);\<close>\<close>

record component_state =
  isProcessing :: bool

definition initial_state :: component_state where
  "initial_state = \<lparr>isProcessing = False\<rparr>"

record toast_args =
  title :: string
  description :: string
  variant :: string

text \<open>What a handler does, in the order in which it does it.\<close>

datatype 'm effect =
    ConsoleLog "string list"
  | ConsoleError "string list"
  | Toast toast_args
  | SetIsProcessing bool
  | CallOnApprove "'m wallet_scheme"
  | CallOnReject
  | CallOnWalletSelect "'m wallet_scheme"

text \<open>
  The run of a handler: the local state once the handler is done (the last value given
  to \<open>setIsProcessing\<close>, if any), the effects in order, and how the handler completes.
\<close>

record 'm run =
  state_after :: component_state
  effects :: "'m effect list"
  completes :: completion

subsection \<open>The handlers\<close>

text \<open>
  \<^verbatim>\<open>const handleApprove = async () => {
    if (!selectedWallet) {
      toast({ title: "No Wallet Selected",
              description: "Please select a wallet to connect",
              variant: "destructive" });
      return;
    }
    console.log('DAppConnection: Approving connection for wallet:', selectedWallet.address);
    setIsProcessing(true);
    try {
      onApprove(selectedWallet);
    } catch (error) {
      console.error('Connection approval error:', error);
      toast({ title: "Connection Failed",
              description: "Failed to approve connection",
              variant: "destructive" });
      setIsProcessing(false);
    } finally {
      // Don't set isProcessing to false here since we're redirecting
    }
  };\<close>
  The call of \<open>onApprove\<close> is not awaited: the \<open>catch\<close> block runs when the call
  throws, and never on what the call returns. The handler is \<open>async\<close>, so it returns a
  promise, fulfilled on each of its paths.
\<close>

definition handleApprove :: "'m dAppConnectionProps \<Rightarrow> component_state \<Rightarrow> 'm run" where
  "handleApprove props st =
     (case selectedWallet props of
        None \<Rightarrow>
          \<lparr>state_after = st,
           effects = [Toast \<lparr>title = ''No Wallet Selected'',
                             description = ''Please select a wallet to connect'',
                             variant = ''destructive''\<rparr>],
           completes = Returns (Promise Fulfilled)\<rparr>
      | Some w \<Rightarrow>
          (let before_call =
                 [ConsoleLog [''DAppConnection: Approving connection for wallet:'', address w],
                  SetIsProcessing True,
                  CallOnApprove w]
           in case onApprove props w of
                Returns v \<Rightarrow>
                  \<lparr>state_after = st\<lparr>isProcessing := True\<rparr>,
                   effects = before_call,
                   completes = Returns (Promise Fulfilled)\<rparr>
              | Throws error \<Rightarrow>
                  \<lparr>state_after = st\<lparr>isProcessing := False\<rparr>,
                   effects = before_call @
                     [ConsoleError [''Connection approval error:'', error],
                      Toast \<lparr>title = ''Connection Failed'',
                             description = ''Failed to approve connection'',
                             variant = ''destructive''\<rparr>,
                      SetIsProcessing False],
                   completes = Returns (Promise Fulfilled)\<rparr>))"

text \<open>
  \<^verbatim>\<open>const handleReject = () => {
    console.log('DAppConnection: Rejecting connection');
    setIsProcessing(true);
    onReject();
  };\<close>
  The handler is not \<open>async\<close> and has no \<open>try\<close>: when \<open>onReject\<close> throws, the handler
  throws the same value.
\<close>

definition handleReject :: "'m dAppConnectionProps \<Rightarrow> component_state \<Rightarrow> 'm run" where
  "handleReject props st =
     \<lparr>state_after = st\<lparr>isProcessing := True\<rparr>,
      effects = [ConsoleLog [''DAppConnection: Rejecting connection''],
                 SetIsProcessing True,
                 CallOnReject],
      completes = (case onReject props of
                     Returns v \<Rightarrow> Returns Undefined
                   | Throws error \<Rightarrow> Throws error)\<rparr>"

text \<open>Projections of a list of effects.\<close>

fun toasts :: "'m effect list \<Rightarrow> toast_args list" where
  "toasts [] = []"
| "toasts (Toast t # es) = t # toasts es"
| "toasts (e # es) = toasts es"

fun approve_calls :: "'m effect list \<Rightarrow> 'm wallet_scheme list" where
  "approve_calls [] = []"
| "approve_calls (CallOnApprove w # es) = w # approve_calls es"
| "approve_calls (e # es) = approve_calls es"

fun reject_calls :: "'m effect list \<Rightarrow> nat" where
  "reject_calls [] = 0"
| "reject_calls (CallOnReject # es) = Suc (reject_calls es)"
| "reject_calls (e # es) = reject_calls es"

fun select_calls :: "'m effect list \<Rightarrow> 'm wallet_scheme list" where
  "select_calls [] = []"
| "select_calls (CallOnWalletSelect w # es) = w # select_calls es"
| "select_calls (e # es) = select_calls es"

fun flag_writes :: "'m effect list \<Rightarrow> bool list" where
  "flag_writes [] = []"
| "flag_writes (SetIsProcessing b # es) = b # flag_writes es"
| "flag_writes (e # es) = flag_writes es"

subsection \<open>The rendered tree\<close>

text \<open>
  The click handlers that the tree carries: \<open>handleReject\<close>, \<open>handleApprove\<close>, and for
  each wallet row the closure \<open>() => onWalletSelect(wallet)\<close>, which is determined by
  its wallet.
\<close>

datatype 'm action = HandleReject | HandleApprove | SelectWallet "'m wallet_scheme"

datatype react_key = KeyString string | KeyNumber nat

datatype 'm attr =
    ClassName string
  | Src string
  | Key react_key
  | OnClick "'m action"
  | Disabled bool
  | Variant string

text \<open>
  A JSX child is an element, an icon element, a string, a number, or the value
  \<open>false\<close> (which React renders as nothing).
\<close>

datatype 'm jsx =
    Element string "'m attr list" "'m jsx list"
  | IconElement icon_element
  | Text string
  | Number nat
  | JsxFalse

text \<open>
  \<open>selectedWallet?.address === wallet.address\<close>: with no selected wallet the left side is
  \<open>undefined\<close>, which is not strictly equal to any string.
\<close>

definition isSelectedAddress :: "'m wallet_scheme option \<Rightarrow> 'm wallet_scheme \<Rightarrow> bool" where
  "isSelectedAddress selected w =
     (case selected of None \<Rightarrow> False | Some s \<Rightarrow> address s = address w)"

text \<open>A string is falsy exactly when it is absent or empty.\<close>

definition truthy :: "string option \<Rightarrow> bool" where
  "truthy v = (case v of None \<Rightarrow> False | Some s \<Rightarrow> s \<noteq> [])"

text \<open>\<open>connectionRequest.appName?.charAt(0) || 'A'\<close>\<close>

definition avatarFallbackText :: "dAppConnectionRequest \<Rightarrow> string" where
  "avatarFallbackText request =
     (case appName request of
        None \<Rightarrow> ''A''
      | Some n \<Rightarrow> (case n of [] \<Rightarrow> ''A'' | c # cs \<Rightarrow> [c]))"

text \<open>\<open>connectionRequest.appName || 'Unknown App'\<close>\<close>

definition displayName :: "dAppConnectionRequest \<Rightarrow> string" where
  "displayName request =
     (if truthy (appName request) then the (appName request) else ''Unknown App'')"

text \<open>The body of \<open>wallets.map((wallet, index) => ...)\<close>, lines 131 to 151.\<close>

definition walletRow :: "'m wallet_scheme option \<Rightarrow> nat \<times> 'm wallet_scheme \<Rightarrow> 'm jsx" where
  "walletRow selected iw =
     (case iw of (index, w) \<Rightarrow>
        Element ''div''
          [Key (KeyString (address w)),
           ClassName (''p-3 border rounded-lg cursor-pointer transition-colors '' @
             (if isSelectedAddress selected w then ''border-primary bg-primary/5''
              else ''hover:bg-muted/50'')),
           OnClick (SelectWallet w)]
          [Element ''div'' [ClassName ''flex items-center justify-between'']
             [Element ''div'' []
                [Element ''div'' [ClassName ''font-medium'']
                   [Text ''Account '', Number (index + 1)],
                 Element ''div'' [ClassName ''text-sm text-muted-foreground font-mono'']
                   [Text (truncateAddress (address w))]],
              (if isSelectedAddress selected w
               then IconElement (Icon Check ''h-5 w-5 text-primary'')
               else JsxFalse)]])"

text \<open>The body of \<open>connectionRequest.permissions.map((permission, index) => ...)\<close>.\<close>

definition permissionRow :: "nat \<times> string \<Rightarrow> 'm jsx" where
  "permissionRow ip =
     (case ip of (index, permission) \<Rightarrow>
        Element ''div'' [Key (KeyNumber index), ClassName ''flex items-start gap-3'']
          [Element ''div'' [ClassName ''mt-0.5'']
             [IconElement (getPermissionIcon permission)],
           Element ''span'' [ClassName ''text-sm'']
             [Text (getPermissionDescription permission)]])"

text \<open>The header of the card, lines 101 to 122.\<close>

definition cardHeader :: "dAppConnectionRequest \<Rightarrow> 'm jsx" where
  "cardHeader request =
     Element ''CardHeader'' [ClassName ''text-center'']
       [Element ''div'' [ClassName ''flex justify-center mb-4'']
          [if truthy (appIcon request)
           then Element ''Avatar'' [ClassName ''h-16 w-16'']
                  [Element ''AvatarImage'' [Src (the (appIcon request))] [],
                   Element ''AvatarFallback'' [] [Text (avatarFallbackText request)]]
           else Element ''div''
                  [ClassName ''h-16 w-16 bg-primary rounded-full flex items-center justify-center'']
                  [IconElement (Icon ExternalLink ''h-8 w-8 text-primary-foreground'')]],
        Element ''CardTitle'' [ClassName ''text-xl'']
          [Text (displayName request), Text '' wants to connect''],
        Element ''p'' [ClassName ''text-sm text-muted-foreground'']
          [Text (origin request)]]"

text \<open>The account list, lines 126 to 155.\<close>

definition walletSection :: "'m dAppConnectionProps \<Rightarrow> 'm jsx" where
  "walletSection props =
     Element ''div'' [ClassName ''space-y-3'']
       [Element ''h3'' [ClassName ''font-medium''] [Text ''Select Account''],
        Element ''div'' [ClassName ''max-h-[150px] w-full overflow-y-auto rounded-md border'']
          [Element ''div'' [ClassName ''p-2 space-y-2'']
             (map (walletRow (selectedWallet props)) (enumerate 0 (wallets props)))]]"

text \<open>The permission list with the restriction line after it, lines 160 to 182.\<close>

definition permissionSection :: "dAppConnectionRequest \<Rightarrow> 'm jsx" where
  "permissionSection request =
     Element ''div'' [ClassName ''space-y-3'']
       [Element ''h3'' [ClassName ''font-medium''] [Text ''This app will be able to:''],
        Element ''div'' [ClassName ''space-y-2'']
          (map permissionRow (enumerate 0 (permissions request)) @
           [Element ''div'' [ClassName ''flex items-start gap-3 text-muted-foreground'']
              [IconElement (Icon X ''h-4 w-4 mt-0.5''),
               Element ''span'' [ClassName ''text-sm'']
                 [Text ''This does not allow the app to transfer tokens'']]])]"

text \<open>The two buttons, lines 192 to 208.\<close>

definition actionButtons :: "'m dAppConnectionProps \<Rightarrow> component_state \<Rightarrow> 'm jsx" where
  "actionButtons props st =
     Element ''div'' [ClassName ''flex gap-3'']
       [Element ''Button''
          [Variant ''outline'', OnClick HandleReject, Disabled (isProcessing st),
           ClassName ''flex-1'']
          [Text ''Cancel''],
        Element ''Button''
          [OnClick HandleApprove,
           Disabled (isProcessing st \<or> selectedWallet props = None),
           ClassName ''flex-1'']
          [Text (if isProcessing st then ''Connecting...'' else ''Connect'')]]"

text \<open>What the component returns, lines 97 to 213.\<close>

definition DAppConnection :: "'m dAppConnectionProps \<Rightarrow> component_state \<Rightarrow> 'm jsx" where
  "DAppConnection props st =
     Element ''div'' [ClassName ''min-h-screen flex items-center justify-center p-4'']
       [Element ''div'' [ClassName ''w-full max-w-md'']
          [Element ''Card'' []
             [cardHeader (connectionRequest props),
              Element ''CardContent'' [ClassName ''space-y-6'']
                [walletSection props,
                 Element ''Separator'' [] [],
                 permissionSection (connectionRequest props),
                 Element ''Alert'' []
                   [IconElement (Icon Shield ''h-4 w-4''),
                    Element ''AlertDescription'' []
                      [Text (''Only connect to websites you trust. This connection will '' @
                             ''allow the app to view your account information and request '' @
                             ''transactions.'')]],
                 actionButtons props st]]]]"

text \<open>Running the click handler that an element carries.\<close>

fun fire :: "'m action \<Rightarrow> 'm dAppConnectionProps \<Rightarrow> component_state \<Rightarrow> 'm run" where
  "fire HandleReject props st = handleReject props st"
| "fire HandleApprove props st = handleApprove props st"
| "fire (SelectWallet w) props st =
     \<lparr>state_after = st,
      effects = [CallOnWalletSelect w],
      completes = (case onWalletSelect props w of
                     Returns v \<Rightarrow> Returns v
                   | Throws error \<Rightarrow> Throws error)\<rparr>"

subsection \<open>Reading a tree\<close>

text \<open>All nodes of a tree, in document order.\<close>

fun nodes :: "'m jsx \<Rightarrow> 'm jsx list" where
  "nodes (Element tag as cs) = Element tag as cs # concat (map nodes cs)"
| "nodes (IconElement i) = [IconElement i]"
| "nodes (Text s) = [Text s]"
| "nodes (Number n) = [Number n]"
| "nodes JsxFalse = [JsxFalse]"

fun tag_of :: "'m jsx \<Rightarrow> string option" where
  "tag_of (Element tag as cs) = Some tag"
| "tag_of j = None"

fun attrs_of :: "'m jsx \<Rightarrow> 'm attr list" where
  "attrs_of (Element tag as cs) = as"
| "attrs_of j = []"

fun onClick_in :: "'m attr list \<Rightarrow> 'm action option" where
  "onClick_in [] = None"
| "onClick_in (OnClick a # as) = Some a"
| "onClick_in (b # as) = onClick_in as"

fun disabled_in :: "'m attr list \<Rightarrow> bool" where
  "disabled_in [] = False"
| "disabled_in (Disabled b # as) = b"
| "disabled_in (a # as) = disabled_in as"

fun className_in :: "'m attr list \<Rightarrow> string" where
  "className_in [] = []"
| "className_in (ClassName c # as) = c"
| "className_in (a # as) = className_in as"

definition is_button :: "'m jsx \<Rightarrow> bool" where
  "is_button j = (tag_of j = Some ''Button'')"

definition is_clickable :: "'m jsx \<Rightarrow> bool" where
  "is_clickable j = (onClick_in (attrs_of j) \<noteq> None)"

definition buttons :: "'m jsx \<Rightarrow> 'm jsx list" where
  "buttons j = filter is_button (nodes j)"

text \<open>The strings of a tree, in document order.\<close>

fun text_of :: "'m jsx \<Rightarrow> string list" where
  "text_of (Text s) = [s]"
| "text_of j = []"

definition texts :: "'m jsx \<Rightarrow> string list" where
  "texts j = concat (map text_of (nodes j))"

text \<open>The icons of a tree, in document order.\<close>

fun icon_of :: "'m jsx \<Rightarrow> icon list" where
  "icon_of (IconElement (Icon i c)) = [i]"
| "icon_of j = []"

definition icons :: "'m jsx \<Rightarrow> icon list" where
  "icons j = concat (map icon_of (nodes j))"

text \<open>
  The wallet rows of a tree are the clickable elements that are not buttons: the
  component attaches a click handler to the two buttons and to each wallet row, and to
  nothing else.
\<close>

definition is_row :: "'m jsx \<Rightarrow> bool" where
  "is_row j = (is_clickable j \<and> \<not> is_button j)"

definition walletRows :: "'m jsx \<Rightarrow> 'm jsx list" where
  "walletRows j = filter is_row (nodes j)"

subsection \<open>Fixed strings\<close>

text \<open>
  Names for three literals of the tree, used in the statements below: the restriction
  line (line 178), the text of the alert (line 187), and the class of a selected wallet
  row (lines 133 to 135).
\<close>

abbreviation (input) restriction_line :: string where
  "restriction_line \<equiv> ''This does not allow the app to transfer tokens''"

abbreviation (input) trust_warning :: string where
  "trust_warning \<equiv>
     ''Only connect to websites you trust. This connection will allow the app '' @
     ''to view your account information and request transactions.''"

abbreviation (input) selected_class :: string where
  "selected_class \<equiv>
     ''p-3 border rounded-lg cursor-pointer transition-colors border-primary bg-primary/5''"

subsection \<open>Sample props\<close>

text \<open>
  A request of one permission, one wallet, which is the selected one, and an
  \<open>onApprove\<close> that throws.
\<close>

definition sample_props :: "unit dAppConnectionProps" where
  "sample_props =
     \<lparr>connectionRequest =
        \<lparr>origin = ''https://app.example'', appName = Some ''App'', appIcon = None,
         permissions = [''view_address'']\<rparr>,
      wallets = [\<lparr>address = ''oct1''\<rparr>],
      selectedWallet = Some \<lparr>address = ''oct1''\<rparr>,
      onWalletSelect = (\<lambda>w. Returns Undefined),
      onApprove = (\<lambda>w. Throws ''failed''),
      onReject = Returns Undefined\<rparr>"

text \<open>The same with an \<open>onApprove\<close> that returns, one that returns a rejected promise, and
  with no wallet selected.\<close>

definition returning_props :: "unit dAppConnectionProps" where
  "returning_props = sample_props\<lparr>onApprove := (\<lambda>w. Returns Undefined)\<rparr>"

definition rejecting_props :: "unit dAppConnectionProps" where
  "rejecting_props = sample_props\<lparr>onApprove := (\<lambda>w. Returns (Promise Rejected))\<rparr>"

definition unselected_props :: "unit dAppConnectionProps" where
  "unselected_props = sample_props\<lparr>selectedWallet := None\<rparr>"

text \<open>
  Two wallet entries that differ (in the part of a wallet the component does not read)
  and have the same address, the first of them selected.
\<close>

definition wallet_a :: "nat wallet_scheme" where
  "wallet_a = \<lparr>address = ''oct1'', \<dots> = 0\<rparr>"

definition wallet_b :: "nat wallet_scheme" where
  "wallet_b = \<lparr>address = ''oct1'', \<dots> = 1\<rparr>"

definition twin_props :: "nat dAppConnectionProps" where
  "twin_props =
     \<lparr>connectionRequest =
        \<lparr>origin = ''https://app.example'', appName = None, appIcon = None, permissions = []\<rparr>,
      wallets = [wallet_a, wallet_b],
      selectedWallet = Some wallet_a,
      onWalletSelect = (\<lambda>w. Returns Undefined),
      onApprove = (\<lambda>w. Returns Undefined),
      onReject = Returns Undefined\<rparr>"

section \<open>Properties\<close>

subsection \<open>Auxiliary facts\<close>

lemma slice_prefix: "slice s 0 (Some 8) = take 8 s"
  by (auto simp: slice_def Let_def min_def)

lemma slice_suffix: "slice s (- 6) None = drop (length s - 6) s"
  by (auto simp: slice_def Let_def max_def nat_diff_distrib)

lemma truncateAddress_take_drop:
  "truncateAddress a = take 8 a @ ''...'' @ drop (length a - 6) a"
  by (simp add: truncateAddress_def slice_prefix slice_suffix)

lemma map_enumerate_snd: "map (\<lambda>iw. f (snd iw)) (enumerate n xs) = map f xs"
  by (induction xs arbitrary: n) simp_all

lemma is_button_Element: "is_button (Element tag as cs) = (tag = ''Button'')"
  by (simp add: is_button_def)

lemma is_clickable_Element: "is_clickable (Element tag as cs) = (onClick_in as \<noteq> None)"
  by (simp add: is_clickable_def)

lemma not_is_button_leaf:
  "\<not> is_button (IconElement i)" "\<not> is_button (Text s)" "\<not> is_button (Number n)"
  "\<not> is_button JsxFalse"
  by (simp_all add: is_button_def)

lemma not_is_clickable_leaf:
  "\<not> is_clickable (IconElement i)" "\<not> is_clickable (Text s)" "\<not> is_clickable (Number n)"
  "\<not> is_clickable JsxFalse"
  by (simp_all add: is_clickable_def)

lemmas node_tests = is_button_Element is_clickable_Element not_is_button_leaf
  not_is_clickable_leaf is_row_def

lemma filter_rows:
  assumes "\<And>x. filter P (nodes (f x)) = g x"
  shows "filter P (concat (map (nodes \<circ> f) xs)) = concat (map g xs)"
  by (induction xs) (simp_all add: assms)

lemma collect_rows:
  assumes "\<And>x. concat (map h (nodes (f x))) = g x"
  shows "concat (map h (concat (map (nodes \<circ> f) xs))) = concat (map g xs)"
  by (induction xs) (simp_all add: assms)

lemma row_nodes_walletRow: "filter is_row (nodes (walletRow sel iw)) = [walletRow sel iw]"
  by (cases iw) (simp add: walletRow_def node_tests)

lemma row_nodes_permissionRow: "filter is_row (nodes (permissionRow ip)) = []"
  by (cases ip) (simp add: permissionRow_def node_tests)

lemma walletRows_DAppConnection:
  "walletRows (DAppConnection props st)
     = map (walletRow (selectedWallet props)) (enumerate 0 (wallets props))"
  by (simp add: walletRows_def DAppConnection_def cardHeader_def walletSection_def
      permissionSection_def actionButtons_def node_tests
      filter_rows [OF row_nodes_walletRow] filter_rows [OF row_nodes_permissionRow])

lemma texts_walletRow:
  "texts (walletRow sel iw) = [''Account '', truncateAddress (address (snd iw))]"
  by (cases iw) (simp add: texts_def walletRow_def)

lemma button_nodes_walletRow: "filter is_button (nodes (walletRow sel iw)) = []"
  by (cases iw) (simp add: walletRow_def node_tests)

lemma button_nodes_permissionRow: "filter is_button (nodes (permissionRow ip)) = []"
  by (cases ip) (simp add: permissionRow_def node_tests)

lemma buttons_DAppConnection:
  "buttons (DAppConnection props st)
     = [Element ''Button''
          [Variant ''outline'', OnClick HandleReject, Disabled (isProcessing st),
           ClassName ''flex-1'']
          [Text ''Cancel''],
        Element ''Button''
          [OnClick HandleApprove,
           Disabled (isProcessing st \<or> selectedWallet props = None),
           ClassName ''flex-1'']
          [Text (if isProcessing st then ''Connecting...'' else ''Connect'')]]"
  by (simp add: buttons_def DAppConnection_def cardHeader_def walletSection_def
      permissionSection_def actionButtons_def node_tests
      filter_rows [OF button_nodes_walletRow] filter_rows [OF button_nodes_permissionRow])

lemma texts_nodes_permissionRow:
  "concat (map text_of (nodes (permissionRow ip))) = [getPermissionDescription (snd ip)]"
  by (cases ip) (simp add: permissionRow_def)

lemma texts_permissionSection:
  "concat (map text_of (nodes (permissionSection request)))
     = [''This app will be able to:''] @ map getPermissionDescription (permissions request)
       @ [restriction_line]"
  by (simp add: permissionSection_def collect_rows [OF texts_nodes_permissionRow]
      map_enumerate_snd)

lemma texts_actionButtons:
  "concat (map text_of (nodes (actionButtons props st)))
     = [''Cancel'', if isProcessing st then ''Connecting...'' else ''Connect'']"
  by (simp add: actionButtons_def)

lemma texts_DAppConnection:
  fixes props :: "'m dAppConnectionProps"
  shows "texts (DAppConnection props st)
     = (texts (cardHeader (connectionRequest props) :: 'm jsx) @ texts (walletSection props))
       @ [''This app will be able to:'']
       @ map getPermissionDescription (permissions (connectionRequest props))
       @ [restriction_line,
          trust_warning,
          ''Cancel'', if isProcessing st then ''Connecting...'' else ''Connect'']"
  by (simp add: texts_def DAppConnection_def texts_permissionSection texts_actionButtons)

lemma onClick_walletRow:
  "onClick_in (attrs_of (walletRow sel iw)) = Some (SelectWallet (snd iw))"
  by (cases iw) (simp add: walletRow_def)

lemma className_walletRow:
  "className_in (attrs_of (walletRow sel iw))
     = ''p-3 border rounded-lg cursor-pointer transition-colors '' @
       (if isSelectedAddress sel (snd iw) then ''border-primary bg-primary/5''
        else ''hover:bg-muted/50'')"
  by (cases iw) (simp add: walletRow_def)

lemma icons_walletRow:
  "icons (walletRow sel iw) = (if isSelectedAddress sel (snd iw) then [Check] else [])"
  by (cases iw) (simp add: icons_def walletRow_def)

lemma isSelectedAddress_iff:
  "isSelectedAddress sel w \<longleftrightarrow> (\<exists>s. sel = Some s \<and> address s = address w)"
  by (cases sel) (simp_all add: isSelectedAddress_def)

subsection \<open>The handlers\<close>

text \<open>
  Claim C1, as amended. With a wallet selected, the approve action sets the processing
  flag to true and then calls \<open>onApprove\<close> once, with that wallet. When the call throws,
  one notification ``Connection Failed'' is shown and the flag is reset to false. When
  the call returns, whatever it returns, nothing is shown, the flag is written once and
  stays true.
\<close>

theorem approve_with_selection:
  assumes "selectedWallet props = Some w"
  shows "flag_writes (takeWhile (\<lambda>e. e \<noteq> CallOnApprove w) (effects (handleApprove props st)))
           = [True]
         \<and> approve_calls (effects (handleApprove props st)) = [w]
         \<and> (\<forall>error. onApprove props w = Throws error \<longrightarrow>
               toasts (effects (handleApprove props st))
                 = [\<lparr>title = ''Connection Failed'',
                     description = ''Failed to approve connection'',
                     variant = ''destructive''\<rparr>]
               \<and> flag_writes (effects (handleApprove props st)) = [True, False]
               \<and> isProcessing (state_after (handleApprove props st)) = False)
         \<and> (\<forall>v. onApprove props w = Returns v \<longrightarrow>
               toasts (effects (handleApprove props st)) = []
               \<and> flag_writes (effects (handleApprove props st)) = [True]
               \<and> isProcessing (state_after (handleApprove props st)) = True)"
  using assms by (cases "onApprove props w") (simp_all add: handleApprove_def)

theorem approve_with_selection_witness:
  "selectedWallet sample_props = Some \<lparr>address = ''oct1''\<rparr>
   \<and> onApprove sample_props \<lparr>address = ''oct1''\<rparr> = Throws ''failed''
   \<and> approve_calls (effects (handleApprove sample_props initial_state)) = [\<lparr>address = ''oct1''\<rparr>]
   \<and> toasts (effects (handleApprove sample_props initial_state))
        = [\<lparr>title = ''Connection Failed'', description = ''Failed to approve connection'',
            variant = ''destructive''\<rparr>]
   \<and> isProcessing (state_after (handleApprove sample_props initial_state)) = False
   \<and> onApprove returning_props \<lparr>address = ''oct1''\<rparr> = Returns Undefined
   \<and> toasts (effects (handleApprove returning_props initial_state)) = []
   \<and> isProcessing (state_after (handleApprove returning_props initial_state)) = True"
proof -
  have sel: "selectedWallet sample_props = Some \<lparr>address = ''oct1''\<rparr>"
    "selectedWallet returning_props = Some \<lparr>address = ''oct1''\<rparr>"
    by (simp_all add: sample_props_def returning_props_def rejecting_props_def unselected_props_def)
  have out: "onApprove sample_props \<lparr>address = ''oct1''\<rparr> = Throws ''failed''"
    "onApprove returning_props \<lparr>address = ''oct1''\<rparr> = Returns Undefined"
    by (simp_all add: sample_props_def returning_props_def rejecting_props_def unselected_props_def)
  show ?thesis
    using sel out approve_with_selection [OF sel(1), of initial_state]
      approve_with_selection [OF sel(2), of initial_state]
    by simp
qed

text \<open>
  Claim C1 as written fails when \<open>onApprove\<close> rejects: the call is not awaited, so a
  callback that returns a rejected promise has returned, the \<open>catch\<close> block is not
  entered, no notification is shown and the flag stays true.
\<close>

theorem approve_rejected_promise_counterexample:
  "selectedWallet rejecting_props = Some \<lparr>address = ''oct1''\<rparr>
   \<and> onApprove rejecting_props \<lparr>address = ''oct1''\<rparr>
        = Returns (Promise Rejected)
   \<and> toasts (effects (handleApprove rejecting_props
        initial_state)) = []
   \<and> isProcessing (state_after (handleApprove rejecting_props
        initial_state)) = True"
  by (simp add: sample_props_def returning_props_def rejecting_props_def unselected_props_def handleApprove_def initial_state_def)

text \<open>
  Claim C2. With no wallet selected, the approve action does not call \<open>onApprove\<close>,
  shows one notification ``No Wallet Selected'', which is all it does, and leaves the
  local state as it was: the processing flag is not written.
\<close>

theorem approve_without_selection:
  assumes "selectedWallet props = None"
  shows "approve_calls (effects (handleApprove props st)) = []
         \<and> toasts (effects (handleApprove props st))
             = [\<lparr>title = ''No Wallet Selected'',
                 description = ''Please select a wallet to connect'',
                 variant = ''destructive''\<rparr>]
         \<and> length (effects (handleApprove props st)) = 1
         \<and> flag_writes (effects (handleApprove props st)) = []
         \<and> state_after (handleApprove props st) = st"
  using assms by (simp add: handleApprove_def)

theorem approve_without_selection_witness:
  "selectedWallet unselected_props = None
   \<and> approve_calls (effects (handleApprove unselected_props initial_state)) = []
   \<and> toasts (effects (handleApprove unselected_props initial_state))
        = [\<lparr>title = ''No Wallet Selected'', description = ''Please select a wallet to connect'',
            variant = ''destructive''\<rparr>]
   \<and> state_after (handleApprove unselected_props initial_state) = initial_state"
proof -
  have none: "selectedWallet unselected_props = None"
    by (simp add: unselected_props_def)
  from none approve_without_selection [OF none, of initial_state] show ?thesis
    by simp
qed

text \<open>
  Claim C3. Whatever the props and the state, and whatever wallet is or is not selected,
  the reject action sets the processing flag to true and then calls \<open>onReject\<close> once.
  That call is the last thing it does: there is no notification and no second write of
  the flag, which is true afterwards also when \<open>onReject\<close> throws, and what
  \<open>onReject\<close> throws the handler throws.
\<close>

theorem reject_unconditional:
  "effects (handleReject props st)
     = [ConsoleLog [''DAppConnection: Rejecting connection''], SetIsProcessing True, CallOnReject]
   \<and> flag_writes (takeWhile (\<lambda>e. e \<noteq> CallOnReject) (effects (handleReject props st))) = [True]
   \<and> reject_calls (effects (handleReject props st)) = 1
   \<and> flag_writes (effects (handleReject props st)) = [True]
   \<and> toasts (effects (handleReject props st)) = []
   \<and> isProcessing (state_after (handleReject props st)) = True
   \<and> completes (handleReject props st)
        = (case onReject props of Returns v \<Rightarrow> Returns Undefined | Throws error \<Rightarrow> Throws error)
   \<and> handleReject (props\<lparr>selectedWallet := selected\<rparr>) st = handleReject props st"
  by (simp add: handleReject_def)

subsection \<open>The buttons\<close>

text \<open>
  Claim C4. The tree has two buttons, Cancel and Connect. Both are disabled when the
  processing flag is true, Connect also when no wallet is selected; Connect is enabled
  exactly when a wallet is selected and the flag is false.
\<close>

theorem buttons_disabled:
  "\<exists>cancel connect.
     buttons (DAppConnection props st) = [cancel, connect]
     \<and> onClick_in (attrs_of cancel) = Some HandleReject
     \<and> onClick_in (attrs_of connect) = Some HandleApprove
     \<and> (isProcessing st \<longrightarrow> disabled_in (attrs_of cancel) \<and> disabled_in (attrs_of connect))
     \<and> (selectedWallet props = None \<longrightarrow> disabled_in (attrs_of connect))
     \<and> (\<not> disabled_in (attrs_of connect) \<longleftrightarrow> selectedWallet props \<noteq> None \<and> \<not> isProcessing st)
     \<and> (disabled_in (attrs_of cancel) \<longleftrightarrow> isProcessing st)"
  by (auto simp add: buttons_DAppConnection)

theorem buttons_disabled_witness:
  "isProcessing \<lparr>isProcessing = True\<rparr>
   \<and> selectedWallet unselected_props = None
   \<and> map (\<lambda>b. disabled_in (attrs_of b))
        (buttons (DAppConnection unselected_props \<lparr>isProcessing = True\<rparr>))
      = [True, True]
   \<and> selectedWallet sample_props \<noteq> None \<and> \<not> isProcessing initial_state
   \<and> map (\<lambda>b. disabled_in (attrs_of b)) (buttons (DAppConnection sample_props initial_state))
      = [False, False]"
proof -
  have given: "selectedWallet unselected_props = None" "selectedWallet sample_props \<noteq> None"
    "\<not> isProcessing initial_state"
    by (simp_all add: sample_props_def unselected_props_def initial_state_def)
  then show ?thesis
    using buttons_disabled [of unselected_props "\<lparr>isProcessing = True\<rparr>"]
      buttons_disabled [of sample_props initial_state]
    by auto
qed

subsection \<open>Permissions and addresses\<close>

text \<open>
  Claim C5. The icon and the description of a permission are functions of the identifier
  alone: \<open>view_address\<close> and \<open>view_balance\<close> give the eye icon, \<open>call_methods\<close>
  the send icon, and each of the three its fixed sentence; every other identifier gives
  the shield icon and is its own description.
\<close>

theorem permission_mapping:
  "getPermissionIcon ''view_address'' = Icon Eye ''h-4 w-4''
   \<and> getPermissionIcon ''view_balance'' = Icon Eye ''h-4 w-4''
   \<and> getPermissionIcon ''call_methods'' = Icon Send ''h-4 w-4''
   \<and> getPermissionDescription ''view_address'' = ''View the address of your permitted account''
   \<and> getPermissionDescription ''view_balance'' = ''View the balance of your permitted account''
   \<and> getPermissionDescription ''call_methods'' =
        ''Call methods on the smart contract on behalf of your permitted account''
   \<and> (\<forall>permission.
          permission \<noteq> ''view_address'' \<and> permission \<noteq> ''view_balance'' \<and>
          permission \<noteq> ''call_methods'' \<longrightarrow>
          getPermissionIcon permission = Icon Shield ''h-4 w-4'' \<and>
          getPermissionDescription permission = permission)"
  by (simp add: getPermissionIcon_def getPermissionDescription_def)

theorem permission_mapping_witness:
  "''custom_scope'' \<noteq> ''view_address'' \<and> ''custom_scope'' \<noteq> ''view_balance''
   \<and> ''custom_scope'' \<noteq> ''call_methods''
   \<and> getPermissionIcon ''custom_scope'' = Icon Shield ''h-4 w-4''
   \<and> getPermissionDescription ''custom_scope'' = ''custom_scope''"
  using permission_mapping by simp

text \<open>
  Claim C6. Each row of the account list shows the address of its wallet as the first
  eight characters, three dots, and the last six characters (all of the address where it
  has fewer); the address \<open>0x1234567890abcdef1234567890abcdef12345678\<close> is shown as
  \<open>0x123456...345678\<close>.
\<close>

theorem address_display:
  "map texts (walletRows (DAppConnection props st))
     = map (\<lambda>w. [''Account '',
                  take 8 (address w) @ ''...'' @ drop (length (address w) - 6) (address w)])
         (wallets props)
   \<and> truncateAddress ''0x1234567890abcdef1234567890abcdef12345678'' = ''0x123456...345678''"
proof -
  have "map texts (walletRows (DAppConnection props st))
          = map (\<lambda>iw. [''Account '', truncateAddress (address (snd iw))])
              (enumerate 0 (wallets props))"
    by (simp add: walletRows_DAppConnection texts_walletRow comp_def)
  also have "\<dots> = map (\<lambda>w. [''Account '', truncateAddress (address w)]) (wallets props)"
    by (rule map_enumerate_snd)
  finally have rows: "map texts (walletRows (DAppConnection props st))
          = map (\<lambda>w. [''Account '', truncateAddress (address w)]) (wallets props)" .
  have example:
    "truncateAddress ''0x1234567890abcdef1234567890abcdef12345678'' = ''0x123456...345678''"
    by (simp add: truncateAddress_take_drop)
  from rows example show ?thesis
    by (simp add: truncateAddress_take_drop)
qed

text \<open>
  Claim C9. \<open>truncateAddress\<close> has no length guard: the result is always
  \<open>address.slice(0, 8)\<close>, three dots and \<open>address.slice(-6)\<close>. For a non-empty
  address shorter than 14 characters the two slices share characters, which are shown
  twice; from 14 characters on they are disjoint; the empty address is shown as three
  dots.
\<close>

theorem truncateAddress_total:
  "truncateAddress a = slice a 0 (Some 8) @ ''...'' @ slice a (- 6) None
   \<and> slice a 0 (Some 8) = take 8 a
   \<and> slice a (- 6) None = drop (length a - 6) a
   \<and> length (truncateAddress a) = min 8 (length a) + 3 + min 6 (length a)
   \<and> (a \<noteq> [] \<and> length a < 14 \<longrightarrow>
        (\<exists>shared. shared \<noteq> [] \<and>
           slice a 0 (Some 8) = take (length a - 6) a @ shared \<and>
           slice a (- 6) None = shared @ drop 8 a))
   \<and> (14 \<le> length a \<longrightarrow>
        (\<exists>hidden. a = slice a 0 (Some 8) @ hidden @ slice a (- 6) None))
   \<and> truncateAddress [] = ''...''"
proof -
  have overlap: "\<exists>shared. shared \<noteq> [] \<and> take 8 a = take (length a - 6) a @ shared
      \<and> drop (length a - 6) a = shared @ drop 8 a"
    if "a \<noteq> []" "length a < 14"
  proof (intro exI conjI)
    from that show "drop (length a - 6) (take 8 a) \<noteq> []"
      by (cases a) auto
    have "take 8 a = take (length a - 6) (take 8 a) @ drop (length a - 6) (take 8 a)"
      by (rule append_take_drop_id [symmetric])
    moreover from that have "min (length a - 6) 8 = length a - 6"
      by simp
    ultimately show "take 8 a = take (length a - 6) a @ drop (length a - 6) (take 8 a)"
      by simp
    have "drop (length a - 6) a
            = take (8 - (length a - 6)) (drop (length a - 6) a)
              @ drop (8 - (length a - 6)) (drop (length a - 6) a)"
      by (rule append_take_drop_id [symmetric])
    with that show "drop (length a - 6) a = drop (length a - 6) (take 8 a) @ drop 8 a"
      by (simp add: drop_take)
  qed
  have apart: "\<exists>hidden. a = take 8 a @ hidden @ drop (length a - 6) a" if "14 \<le> length a"
  proof
    have "drop 8 a = take (length a - 14) (drop 8 a) @ drop (length a - 14) (drop 8 a)"
      by (rule append_take_drop_id [symmetric])
    with that have "drop 8 a = take (length a - 14) (drop 8 a) @ drop (length a - 6) a"
      by simp
    then show "a = take 8 a @ take (length a - 14) (drop 8 a) @ drop (length a - 6) a"
      by (metis append_take_drop_id)
  qed
  show ?thesis
    using overlap apart
    by (simp add: truncateAddress_def slice_prefix slice_suffix)
qed

theorem truncateAddress_total_witness:
  "''abc'' \<noteq> [] \<and> length ''abc'' < 14
   \<and> (\<exists>shared. shared \<noteq> [] \<and> slice ''abc'' 0 (Some 8) = take (length ''abc'' - 6) ''abc'' @ shared
        \<and> slice ''abc'' (- 6) None = shared @ drop 8 ''abc'')
   \<and> truncateAddress ''abc'' = ''abc...abc''
   \<and> 14 \<le> length ''abcdefghijklmn''
   \<and> (\<exists>hidden. ''abcdefghijklmn'' =
         slice ''abcdefghijklmn'' 0 (Some 8) @ hidden @ slice ''abcdefghijklmn'' (- 6) None)
   \<and> truncateAddress ''abcdefghijklmn'' = ''abcdefgh...ijklmn''"
proof -
  have short: "''abc'' \<noteq> [] \<and> length ''abc'' < 14" by simp
  have long: "14 \<le> length ''abcdefghijklmn''" by simp
  have shown: "truncateAddress ''abc'' = ''abc...abc''"
    "truncateAddress ''abcdefghijklmn'' = ''abcdefgh...ijklmn''"
    using truncateAddress_total [of "''abc''"] truncateAddress_total [of "''abcdefghijklmn''"]
    by simp_all
  show ?thesis
    using short long shown truncateAddress_total [of "''abc''"]
      truncateAddress_total [of "''abcdefghijklmn''"]
    by blast
qed

subsection \<open>The fixed lines\<close>

text \<open>
  Claim C7. In every render the descriptions of the requested permissions are followed
  at once by the line that the app cannot transfer tokens and then by the trust warning,
  also when no permission is requested.
\<close>

theorem fixed_lines_present:
  "(\<exists>before.
      texts (DAppConnection props st)
        = before @ [''This app will be able to:'']
          @ map getPermissionDescription (permissions (connectionRequest props))
          @ [restriction_line,
             trust_warning,
             ''Cancel'', if isProcessing st then ''Connecting...'' else ''Connect''])
   \<and> (\<exists>before.
        texts (DAppConnection
                 (props\<lparr>connectionRequest := (connectionRequest props)\<lparr>permissions := []\<rparr>\<rparr>) st)
          = before @ [''This app will be able to:'',
               restriction_line,
               trust_warning,
               ''Cancel'', if isProcessing st then ''Connecting...'' else ''Connect''])"
proof (rule conjI)
  show "\<exists>before.
      texts (DAppConnection props st)
        = before @ [''This app will be able to:'']
          @ map getPermissionDescription (permissions (connectionRequest props))
          @ [restriction_line,
             trust_warning,
             ''Cancel'', if isProcessing st then ''Connecting...'' else ''Connect'']"
    using texts_DAppConnection [of props st] by blast
  let ?empty = "props\<lparr>connectionRequest := (connectionRequest props)\<lparr>permissions := []\<rparr>\<rparr>"
  have "permissions (connectionRequest ?empty) = []"
    by simp
  with texts_DAppConnection [of ?empty st]
  show "\<exists>before.
        texts (DAppConnection ?empty st)
          = before @ [''This app will be able to:'',
               restriction_line,
               trust_warning,
               ''Cancel'', if isProcessing st then ''Connecting...'' else ''Connect'']"
    by (metis append_Cons append_Nil list.simps(8))
qed

subsection \<open>The account list\<close>

text \<open>
  Claim C8. The rows of the account list carry, in the order of the wallet list, the
  click handler of their own wallet, and that handler calls \<open>onWalletSelect\<close> once, with
  that wallet, and does nothing else. Neither depends on the selected wallet.
\<close>

theorem row_click_selects:
  "map (\<lambda>row. onClick_in (attrs_of row)) (walletRows (DAppConnection props st))
     = map (\<lambda>w. Some (SelectWallet w)) (wallets props)
   \<and> effects (fire (SelectWallet w) props st) = [CallOnWalletSelect w]
   \<and> select_calls (effects (fire (SelectWallet w) props st)) = [w]
   \<and> state_after (fire (SelectWallet w) props st) = st
   \<and> completes (fire (SelectWallet w) props st) = onWalletSelect props w
   \<and> map (\<lambda>row. onClick_in (attrs_of row))
        (walletRows (DAppConnection (props\<lparr>selectedWallet := selected\<rparr>) st))
      = map (\<lambda>w. Some (SelectWallet w)) (wallets props)
   \<and> fire (SelectWallet w) (props\<lparr>selectedWallet := selected\<rparr>) st
      = fire (SelectWallet w) props st"
proof -
  have rows: "map (\<lambda>row. onClick_in (attrs_of row)) (walletRows (DAppConnection p st))
      = map (\<lambda>w. Some (SelectWallet w)) (wallets p)" for p :: "'a dAppConnectionProps"
  proof -
    have "map (\<lambda>row. onClick_in (attrs_of row)) (walletRows (DAppConnection p st))
        = map (\<lambda>iw. Some (SelectWallet (snd iw))) (enumerate 0 (wallets p))"
      by (simp add: walletRows_DAppConnection onClick_walletRow comp_def)
    also have "\<dots> = map (\<lambda>w. Some (SelectWallet w)) (wallets p)"
      by (rule map_enumerate_snd)
    finally show ?thesis .
  qed
  have outcome: "completes (fire (SelectWallet w) props st) = onWalletSelect props w"
    by (cases "onWalletSelect props w") simp_all
  have same: "fire (SelectWallet w) (props\<lparr>selectedWallet := selected\<rparr>) st
      = fire (SelectWallet w) props st"
    by simp
  show ?thesis
    using rows [of props] rows [of "props\<lparr>selectedWallet := selected\<rparr>"] outcome same
    by simp
qed

text \<open>
  Claim C10. A row has the highlighted class and the check mark exactly when a wallet is
  selected whose address equals the address of the row's wallet. Two different entries
  with one address are both shown as selected when either is.
\<close>

theorem selected_style_by_address:
  "map (\<lambda>row. (className_in (attrs_of row), Check \<in> set (icons row)))
     (walletRows (DAppConnection props st))
     = map (\<lambda>w. (''p-3 border rounded-lg cursor-pointer transition-colors '' @
                  (if \<exists>s. selectedWallet props = Some s \<and> address s = address w
                   then ''border-primary bg-primary/5'' else ''hover:bg-muted/50''),
                  \<exists>s. selectedWallet props = Some s \<and> address s = address w))
         (wallets props)
   \<and> (wallets props = [w1, w2] \<and> w1 \<noteq> w2 \<and> address w1 = address w2 \<and>
        selectedWallet props = Some w1 \<longrightarrow>
        map (\<lambda>row. (className_in (attrs_of row), Check \<in> set (icons row)))
          (walletRows (DAppConnection props st))
        = [(selected_class, True),
           (selected_class, True)])"
proof -
  let ?style = "\<lambda>row. (className_in (attrs_of row), Check \<in> set (icons row))"
  let ?sel = "\<lambda>w. \<exists>s. selectedWallet props = Some s \<and> address s = address w"
  have "map ?style (walletRows (DAppConnection props st))
      = map (\<lambda>iw. (''p-3 border rounded-lg cursor-pointer transition-colors '' @
                  (if ?sel (snd iw) then ''border-primary bg-primary/5'' else ''hover:bg-muted/50''),
                  ?sel (snd iw)))
          (enumerate 0 (wallets props))"
    by (simp add: walletRows_DAppConnection className_walletRow icons_walletRow comp_def
        isSelectedAddress_iff)
  also have "\<dots> = map (\<lambda>w. (''p-3 border rounded-lg cursor-pointer transition-colors '' @
                  (if ?sel w then ''border-primary bg-primary/5'' else ''hover:bg-muted/50''),
                  ?sel w)) (wallets props)"
    by (rule map_enumerate_snd)
  finally have rows: "map ?style (walletRows (DAppConnection props st))
      = map (\<lambda>w. (''p-3 border rounded-lg cursor-pointer transition-colors '' @
                  (if ?sel w then ''border-primary bg-primary/5'' else ''hover:bg-muted/50''),
                  ?sel w)) (wallets props)" .
  show ?thesis
    unfolding rows by simp
qed

theorem selected_style_by_address_witness:
  "wallets twin_props = [wallet_a, wallet_b] \<and> wallet_a \<noteq> wallet_b \<and> address wallet_a = address wallet_b
   \<and> selectedWallet twin_props = Some wallet_a
   \<and> map (\<lambda>row. (className_in (attrs_of row), Check \<in> set (icons row)))
        (walletRows (DAppConnection twin_props initial_state))
      = [(selected_class, True),
         (selected_class, True)]"
proof -
  have given: "wallets twin_props = [wallet_a, wallet_b] \<and> wallet_a \<noteq> wallet_b \<and> address wallet_a = address wallet_b
      \<and> selectedWallet twin_props = Some wallet_a"
    by (simp add: twin_props_def wallet_a_def wallet_b_def)
  with selected_style_by_address [of twin_props initial_state wallet_a wallet_b] show ?thesis
    by blast
qed

end
